theory Spec2Isabelle
  imports Main
begin

section \<open>Data model (types.ts)\<close>

text \<open>
  JavaScript strings are modelled as \<open>string\<close>; \<open>.length\<close> is \<open>length\<close>.
  \<open>Date.now()\<close> and \<open>new Date()\<close> are readings of the clock in milliseconds, taken
  as \<open>int\<close> arguments of the handler that reads them.
\<close>

datatype Platform = Generic | LinkedIn | Facebook | Reddit | Twitter

record Revision =
  id_rev :: string
  content :: string
  timestamp :: int
  platform :: Platform

record Suggestion =
  id_sug :: string
  originalText :: string
  suggestedChange :: string
  reason :: string

record AttachedFile =
  name_file :: string
  type_file :: string
  content_file :: string

text \<open>An element of the parsed model answer: a suggestion without its id.\<close>

record RawSuggestion =
  originalText_raw :: string
  suggestedChange_raw :: string
  reason_raw :: string

section \<open>The generator service (services/geminiService)\<close>

text \<open>
  Whatever \<open>ai.models.generateContent\<close> or \<open>JSON.parse\<close> throws is one value
  \<open>GenerationError\<close>. The model is an external collaborator: each call site of
  \<open>generateContent\<close> is a field of the record \<open>Gemini\<close> that maps the arguments from
  which the request is built to the thrown error or to \<open>result.text\<close>; \<open>JSON.parse\<close>
  is the field \<open>jsonParse\<close>.
\<close>

datatype gen_error = GenerationError

record Gemini =
  draftText :: "string \<Rightarrow> AttachedFile list \<Rightarrow> Platform \<Rightarrow> gen_error + string"
  suggestionsText :: "string \<Rightarrow> Platform \<Rightarrow> gen_error + string"
  mergeText :: "string \<Rightarrow> Suggestion list \<Rightarrow> Platform \<Rightarrow> gen_error + string"
  jsonParse :: "string \<Rightarrow> gen_error + RawSuggestion list"

text \<open>\<open>Number.prototype.toString\<close> on an integer: its decimal digits.\<close>

fun natToString :: "nat \<Rightarrow> string" where
  "natToString n =
     (if n < 10 then [''0123456789'' ! n]
      else natToString (n div 10) @ [''0123456789'' ! (n mod 10)])"

declare natToString.simps [simp del]

definition toString :: "int \<Rightarrow> string" where
  "toString i = (if i < 0 then CHR ''-'' # natToString (nat (- i)) else natToString (nat i))"

text \<open>\<open>generateInitialDraft\<close> returns \<open>result.text\<close>; a throw of the call propagates.\<close>

definition generateInitialDraft ::
  "Gemini \<Rightarrow> string \<Rightarrow> AttachedFile list \<Rightarrow> Platform \<Rightarrow> gen_error + string" where
  "generateInitialDraft g prompt files pf =
     (case draftText g prompt files pf of
        Inl e \<Rightarrow> Inl e
      | Inr text \<Rightarrow> Inr text)"

text \<open>
  \<open>generateSuggestions\<close> wraps the call, \<open>JSON.parse\<close> and the \<open>map\<close> in one
  \<open>try\<close>; the \<open>catch\<close> returns \<open>[]\<close>. The \<open>map\<close> callback reads \<open>Date.now()\<close>
  once per element: \<open>clock index\<close> is the reading at that element.
\<close>

definition withId :: "(nat \<Rightarrow> int) \<Rightarrow> nat \<Rightarrow> RawSuggestion \<Rightarrow> Suggestion" where
  "withId clock index r =
     \<lparr> id_sug = toString (clock index) @ ''-'' @ natToString index,
       originalText = originalText_raw r,
       suggestedChange = suggestedChange_raw r,
       reason = reason_raw r \<rparr>"

definition generateSuggestions ::
  "Gemini \<Rightarrow> (nat \<Rightarrow> int) \<Rightarrow> string \<Rightarrow> Platform \<Rightarrow> gen_error + Suggestion list" where
  "generateSuggestions g clock documentContent pf =
     (case suggestionsText g documentContent pf of
        Inl e \<Rightarrow> Inr []
      | Inr jsonText \<Rightarrow>
          (case jsonParse g jsonText of
             Inl e \<Rightarrow> Inr []
           | Inr suggestionsData \<Rightarrow>
               Inr (map (\<lambda>(index, r). withId clock index r)
                      (zip [0 ..< length suggestionsData] suggestionsData))))"

definition applySuggestions ::
  "Gemini \<Rightarrow> string \<Rightarrow> Suggestion list \<Rightarrow> Platform \<Rightarrow> gen_error + string" where
  "applySuggestions g documentContent sugs pf =
     (case mergeText g documentContent sugs pf of
        Inl e \<Rightarrow> Inl e
      | Inr text \<Rightarrow> Inr text)"

section \<open>The state of the App component (App.tsx)\<close>

record AppState =
  revisions :: "Revision list"
  suggestions :: "Suggestion list"
  selectedSuggestions :: "string set"
  isGeneratingDraft :: bool
  isFetchingSuggestions :: bool
  loadingMessage :: string
  error :: "string option"
  historyPast :: "string list"
  historyFuture :: "string list"
  lastSaveTimeRef :: int
  prevRevisionsLengthRef :: nat

definition initialState :: AppState where
  "initialState =
     \<lparr> revisions = [], suggestions = [], selectedSuggestions = {},
       isGeneratingDraft = False, isFetchingSuggestions = False,
       loadingMessage = [], error = None,
       historyPast = [], historyFuture = [],
       lastSaveTimeRef = 0, prevRevisionsLengthRef = 0 \<rparr>"

definition currentRevision :: "AppState \<Rightarrow> Revision option" where
  "currentRevision s =
     (if length (revisions s) > 0 then Some (revisions s ! (length (revisions s) - 1))
      else None)"

text \<open>
  An asynchronous handler either returns before it awaits anything, or reaches its
  \<open>await\<close> of a service call (carried with its arguments) and resumes on the answer.
\<close>

datatype ('c, 's) Step = Return 's | Await 'c 's

subsection \<open>The effect on \<open>revisions.length\<close>\<close>

definition lengthEffect :: "AppState \<Rightarrow> AppState" where
  "lengthEffect s =
     (if length (revisions s) > prevRevisionsLengthRef s
      then s\<lparr> historyPast := [], historyFuture := [],
               prevRevisionsLengthRef := length (revisions s) \<rparr>
      else s)"

text \<open>
  After a handler has turned the rendered state \<open>old\<close> into \<open>new\<close>, the component
  renders again and runs the effect only if its dependency \<open>revisions.length\<close> changed.
\<close>

definition rerender :: "AppState \<Rightarrow> AppState \<Rightarrow> AppState" where
  "rerender old new =
     (if length (revisions new) \<noteq> length (revisions old) then lengthEffect new else new)"

subsection \<open>handleGenerateDraft\<close>

definition handleGenerateDraft_start :: "AppState \<Rightarrow> AppState" where
  "handleGenerateDraft_start s =
     s\<lparr> isGeneratingDraft := True,
        loadingMessage := ''Crafting your initial draft...'',
        error := None \<rparr>"

definition handleGenerateDraft_resume ::
  "Platform \<Rightarrow> gen_error + string \<Rightarrow> int \<Rightarrow> int \<Rightarrow> AppState \<Rightarrow> AppState" where
  "handleGenerateDraft_resume pf answer now date s =
     (case answer of
        Inr c \<Rightarrow>
          s\<lparr> revisions :=
               [\<lparr> id_rev = toString now, content = c, timestamp = date, platform = pf \<rparr>],
             suggestions := [],
             selectedSuggestions := {} \<rparr>
      | Inl e \<Rightarrow>
          s\<lparr> error :=
               Some ''Failed to generate draft. Please check your API key and try again.'' \<rparr>)
     \<lparr> isGeneratingDraft := False \<rparr>"

definition handleGenerateDraft ::
  "Gemini \<Rightarrow> string \<Rightarrow> AttachedFile list \<Rightarrow> Platform \<Rightarrow> int \<Rightarrow> int \<Rightarrow> AppState \<Rightarrow> AppState"
  where
  "handleGenerateDraft g prompt files pf now date s =
     handleGenerateDraft_resume pf (generateInitialDraft g prompt files pf) now date
       (handleGenerateDraft_start s)"

subsection \<open>fetchSuggestions\<close>

definition fetchSuggestions_start ::
  "Revision option \<Rightarrow> AppState \<Rightarrow> (string \<times> Platform, AppState) Step" where
  "fetchSuggestions_start revision s =
     (case revision of
        None \<Rightarrow> Return s
      | Some r \<Rightarrow>
          if length (content r) < 50 then Return s
          else Await (content r, platform r) (s\<lparr> isFetchingSuggestions := True \<rparr>))"

definition fetchSuggestions_resume ::
  "gen_error + Suggestion list \<Rightarrow> AppState \<Rightarrow> AppState" where
  "fetchSuggestions_resume answer s =
     (case answer of
        Inr newSuggestions \<Rightarrow> s\<lparr> suggestions := newSuggestions \<rparr>
      | Inl e \<Rightarrow> s)
     \<lparr> isFetchingSuggestions := False \<rparr>"

definition fetchSuggestions ::
  "Gemini \<Rightarrow> (nat \<Rightarrow> int) \<Rightarrow> Revision option \<Rightarrow> AppState \<Rightarrow> AppState" where
  "fetchSuggestions g clock revision s =
     (case fetchSuggestions_start revision s of
        Return s' \<Rightarrow> s'
      | Await (doc, pf) s' \<Rightarrow>
          fetchSuggestions_resume (generateSuggestions g clock doc pf) s')"

text \<open>The debounce timer's callback.\<close>

definition suggestionTimer :: "Gemini \<Rightarrow> (nat \<Rightarrow> int) \<Rightarrow> AppState \<Rightarrow> AppState" where
  "suggestionTimer g clock s =
     (case currentRevision s of
        Some r \<Rightarrow> fetchSuggestions g clock (Some r) s
      | None \<Rightarrow> s)"

subsection \<open>handleApplySuggestions\<close>

definition handleApplySuggestions_start ::
  "AppState \<Rightarrow> (string \<times> Suggestion list \<times> Platform, AppState) Step" where
  "handleApplySuggestions_start s =
     (case currentRevision s of
        None \<Rightarrow> Return s
      | Some cur \<Rightarrow>
          if selectedSuggestions s = {} then Return s
          else
            Await (content cur,
                   filter (\<lambda>x. id_sug x \<in> selectedSuggestions s) (suggestions s),
                   platform cur)
              (s\<lparr> isGeneratingDraft := True,
                  loadingMessage := ''Weaving in your selected changes...'',
                  error := None \<rparr>))"

text \<open>
  After the \<open>await\<close> the handler uses \<open>currentRevision.platform\<close> of its closure
  (\<open>pf\<close>) and appends to the revisions of the state it resumes in.
\<close>

definition handleApplySuggestions_resume ::
  "Platform \<Rightarrow> gen_error + string \<Rightarrow> int \<Rightarrow> int \<Rightarrow> AppState \<Rightarrow> AppState" where
  "handleApplySuggestions_resume pf answer now date s =
     (case answer of
        Inr newContent \<Rightarrow>
          s\<lparr> revisions :=
               revisions s @
               [\<lparr> id_rev = toString now, content = newContent, timestamp = date,
                   platform = pf \<rparr>],
             selectedSuggestions := {},
             suggestions := [] \<rparr>
      | Inl e \<Rightarrow> s\<lparr> error := Some ''Failed to apply suggestions. Please try again.'' \<rparr>)
     \<lparr> isGeneratingDraft := False \<rparr>"

definition handleApplySuggestions :: "Gemini \<Rightarrow> int \<Rightarrow> int \<Rightarrow> AppState \<Rightarrow> AppState" where
  "handleApplySuggestions g now date s =
     (case handleApplySuggestions_start s of
        Return s' \<Rightarrow> s'
      | Await (doc, sugs, pf) s' \<Rightarrow>
          handleApplySuggestions_resume pf (applySuggestions g doc sugs pf) now date s')"

subsection \<open>handleToggleSuggestion\<close>

definition handleToggleSuggestion :: "string \<Rightarrow> AppState \<Rightarrow> AppState" where
  "handleToggleSuggestion suggestionId s =
     s\<lparr> selectedSuggestions :=
          (if suggestionId \<in> selectedSuggestions s
           then selectedSuggestions s - {suggestionId}
           else insert suggestionId (selectedSuggestions s)) \<rparr>"

subsection \<open>handleContentChange, handleUndo, handleRedo\<close>

text \<open>\<open>[...revisions.slice(0, -1), updatedRevision]\<close>\<close>

definition replaceLast :: "Revision list \<Rightarrow> Revision \<Rightarrow> Revision list" where
  "replaceLast revs updatedRevision = butlast revs @ [updatedRevision]"

definition handleContentChange :: "int \<Rightarrow> string \<Rightarrow> AppState \<Rightarrow> AppState" where
  "handleContentChange now newContent s =
     (case currentRevision s of
        None \<Rightarrow> s
      | Some cur \<Rightarrow>
          (let s1 =
             (if now - lastSaveTimeRef s > 1000
              then s\<lparr> historyPast := historyPast s @ [content cur],
                       historyFuture := [],
                       lastSaveTimeRef := now \<rparr>
              else s)
           in s1\<lparr> revisions := replaceLast (revisions s) (cur\<lparr> content := newContent \<rparr>) \<rparr>))"

definition handleUndo :: "AppState \<Rightarrow> AppState" where
  "handleUndo s =
     (case currentRevision s of
        None \<Rightarrow> s
      | Some cur \<Rightarrow>
          if length (historyPast s) = 0 then s
          else
            (let previousContent = historyPast s ! (length (historyPast s) - 1);
                 newPast = butlast (historyPast s)
             in s\<lparr> historyFuture := content cur # historyFuture s,
                   historyPast := newPast,
                   revisions := replaceLast (revisions s) (cur\<lparr> content := previousContent \<rparr>) \<rparr>))"

definition handleRedo :: "AppState \<Rightarrow> AppState" where
  "handleRedo s =
     (case currentRevision s of
        None \<Rightarrow> s
      | Some cur \<Rightarrow>
          (case historyFuture s of
             [] \<Rightarrow> s
           | nextContent # newFuture \<Rightarrow>
               s\<lparr> historyPast := historyPast s @ [content cur],
                  historyFuture := newFuture,
                  revisions := replaceLast (revisions s) (cur\<lparr> content := nextContent \<rparr>) \<rparr>))"

subsection \<open>Events of the rendered component\<close>

text \<open>
  The component renders \<open>InitialScreen\<close> (whose only callback is \<open>onGenerate\<close>)
  while \<open>revisions.length === 0\<close> and \<open>EditorView\<close> otherwise. \<open>EditorView\<close> offers a
  card, and so a toggle, for each suggestion of the batch; the apply button is rendered
  when the batch is non-empty and enabled when the selection is non-empty; content
  changes, undo and redo (also bound to keys) reach their handlers as they are. The timer
  is set by an effect of \<open>App\<close> itself. An event carries the generator that answers
  the call its handler awaits and the clock readings the handler takes after the answer.
  \<open>dispatch\<close> is the schedule in which that answer arrives before any other event: the
  handler runs to its end and \<open>rerender\<close> follows it. The other schedules are those of
  \<open>act\<close> below.
\<close>

datatype Event =
    GenerateDraft Gemini string "AttachedFile list" Platform int int
  | TimerFired Gemini "nat \<Rightarrow> int"
  | ApplyClicked Gemini int int
  | CardClicked string
  | ContentChanged int string
  | UndoPressed
  | RedoPressed

fun dispatch :: "Event \<Rightarrow> AppState \<Rightarrow> AppState" where
  "dispatch (GenerateDraft g prompt files pf now date) s =
     (if length (revisions s) = 0
      then rerender s (handleGenerateDraft g prompt files pf now date s) else s)"
| "dispatch (TimerFired g clock) s = rerender s (suggestionTimer g clock s)"
| "dispatch (ApplyClicked g now date) s =
     (if length (revisions s) \<noteq> 0 \<and> length (suggestions s) > 0 \<and> selectedSuggestions s \<noteq> {}
      then rerender s (handleApplySuggestions g now date s) else s)"
| "dispatch (CardClicked suggestionId) s =
     (if length (revisions s) \<noteq> 0 \<and> suggestionId \<in> set (map id_sug (suggestions s))
      then rerender s (handleToggleSuggestion suggestionId s) else s)"
| "dispatch (ContentChanged now newContent) s =
     (if length (revisions s) \<noteq> 0
      then rerender s (handleContentChange now newContent s) else s)"
| "dispatch UndoPressed s =
     (if length (revisions s) \<noteq> 0 then rerender s (handleUndo s) else s)"
| "dispatch RedoPressed s =
     (if length (revisions s) \<noteq> 0 then rerender s (handleRedo s) else s)"

definition run :: "Event list \<Rightarrow> AppState" where
  "run events = foldl (\<lambda>s e. dispatch e s) initialState events"

subsection \<open>Calls in flight\<close>

text \<open>
  Nothing in \<open>App\<close> or \<open>InitialScreen\<close> keeps an event from arriving while a call is
  awaited: the overlay shown while \<open>isGeneratingDraft\<close> holds covers the pointer only,
  and the submit button is disabled only by an empty prompt. \<open>upToAwait\<close> runs a handler,
  under the same conditions of the rendered component as \<open>dispatch\<close>, up to its
  \<open>await\<close>; what the handler does once the call is answered, with the variables of its
  closure, is returned as a function of the state it resumes in.
\<close>

fun upToAwait :: "Event \<Rightarrow> AppState \<Rightarrow> AppState \<times> (AppState \<Rightarrow> AppState) option" where
  "upToAwait (GenerateDraft g prompt files pf now date) s =
     (if length (revisions s) = 0
      then (handleGenerateDraft_start s,
            Some (handleGenerateDraft_resume pf (generateInitialDraft g prompt files pf) now date))
      else (s, None))"
| "upToAwait (TimerFired g clock) s =
     (case currentRevision s of
        None \<Rightarrow> (s, None)
      | Some r \<Rightarrow>
          (case fetchSuggestions_start (Some r) s of
             Return s' \<Rightarrow> (s', None)
           | Await (doc, pf) s' \<Rightarrow>
               (s', Some (fetchSuggestions_resume (generateSuggestions g clock doc pf)))))"
| "upToAwait (ApplyClicked g now date) s =
     (if length (revisions s) \<noteq> 0 \<and> length (suggestions s) > 0 \<and> selectedSuggestions s \<noteq> {}
      then
        (case handleApplySuggestions_start s of
           Return s' \<Rightarrow> (s', None)
         | Await (doc, sugs, pf) s' \<Rightarrow>
             (s', Some (handleApplySuggestions_resume pf (applySuggestions g doc sugs pf) now date)))
      else (s, None))"
| "upToAwait (CardClicked suggestionId) s =
     (if length (revisions s) \<noteq> 0 \<and> suggestionId \<in> set (map id_sug (suggestions s))
      then (handleToggleSuggestion suggestionId s, None) else (s, None))"
| "upToAwait (ContentChanged now newContent) s =
     (if length (revisions s) \<noteq> 0
      then (handleContentChange now newContent s, None) else (s, None))"
| "upToAwait UndoPressed s =
     (if length (revisions s) \<noteq> 0 then (handleUndo s, None) else (s, None))"
| "upToAwait RedoPressed s =
     (if length (revisions s) \<noteq> 0 then (handleRedo s, None) else (s, None))"

text \<open>
  \<open>Whole e\<close>: the event \<open>e\<close> with its call answered at once. \<open>Start e\<close>: the handler
  of \<open>e\<close> runs up to its \<open>await\<close> and the call stays in flight. \<open>Resume i\<close>: the
  \<open>i\<close>-th call in flight is answered and its handler resumes in the current state.
\<close>

datatype Action = Whole Event | Start Event | Resume nat

record World =
  app :: AppState
  inFlight :: "(AppState \<Rightarrow> AppState) list"

fun act :: "Action \<Rightarrow> World \<Rightarrow> World" where
  "act (Whole e) w = w\<lparr> app := dispatch e (app w) \<rparr>"
| "act (Start e) w =
     (case upToAwait e (app w) of
        (s', None) \<Rightarrow> w\<lparr> app := rerender (app w) s' \<rparr>
      | (s', Some k) \<Rightarrow> \<lparr> app = rerender (app w) s', inFlight = inFlight w @ [k] \<rparr>)"
| "act (Resume i) w =
     (if i < length (inFlight w)
      then \<lparr> app = rerender (app w) ((inFlight w ! i) (app w)),
             inFlight = take i (inFlight w) @ drop (Suc i) (inFlight w) \<rparr>
      else w)"

definition play :: "Action list \<Rightarrow> AppState" where
  "play actions =
     app (foldl (\<lambda>w a. act a w) \<lparr> app = initialState, inFlight = [] \<rparr> actions)"

subsection \<open>Sequences of manual edits\<close>

fun recordEdits :: "(int \<times> string) list \<Rightarrow> AppState \<Rightarrow> AppState" where
  "recordEdits [] s = s"
| "recordEdits ((now, newContent) # rest) s = recordEdits rest (handleContentChange now newContent s)"

text \<open>The time elapsed before each call since the call before it (since \<open>prev\<close> for the first).\<close>

fun gaps :: "int \<Rightarrow> int list \<Rightarrow> int list" where
  "gaps prev [] = []"
| "gaps prev (t # ts) = (t - prev) # gaps t ts"

subsection \<open>Example inputs\<close>

definition failing :: Gemini where
  "failing =
     \<lparr> draftText = (\<lambda>prompt files pf. Inl GenerationError),
       suggestionsText = (\<lambda>doc pf. Inl GenerationError),
       mergeText = (\<lambda>doc sugs pf. Inl GenerationError),
       jsonParse = (\<lambda>text. Inl GenerationError) \<rparr>"

definition answering :: "string \<Rightarrow> RawSuggestion list \<Rightarrow> Gemini" where
  "answering text suggestionsData =
     \<lparr> draftText = (\<lambda>prompt files pf. Inr text),
       suggestionsText = (\<lambda>doc pf. Inr ''json''),
       mergeText = (\<lambda>doc sugs pf. Inr text),
       jsonParse = (\<lambda>jsonText. Inr suggestionsData) \<rparr>"

definition longText :: string where
  "longText = ''The quick brown fox jumps over the lazy dog, twice.''"

definition shortText :: string where
  "shortText = ''Forty characters of text, no more: 40 ab''"

definition rawExample :: RawSuggestion where
  "rawExample =
     \<lparr> originalText_raw = ''quick'', suggestedChange_raw = ''swift'', reason_raw = ''tone'' \<rparr>"

definition exampleRevision :: Revision where
  "exampleRevision =
     \<lparr> id_rev = ''1'', content = ''Hello world'', timestamp = 1, platform = LinkedIn \<rparr>"

definition exampleSuggestion :: Suggestion where
  "exampleSuggestion =
     \<lparr> id_sug = ''s1'', originalText = ''world'', suggestedChange = ''brave world'',
       reason = ''tone'' \<rparr>"

definition editing :: AppState where
  "editing =
     initialState
       \<lparr> revisions := [exampleRevision],
         suggestions := [exampleSuggestion],
         selectedSuggestions := {''s1''},
         historyPast := [''Hello''],
         historyFuture := [''Hello world!''],
         lastSaveTimeRef := 5000,
         prevRevisionsLengthRef := 1 \<rparr>"

definition fresh :: AppState where
  "fresh = initialState \<lparr> revisions := [exampleRevision], prevRevisionsLengthRef := 1 \<rparr>"

definition clockAt :: "int \<Rightarrow> nat \<Rightarrow> int" where
  "clockAt t index = t"

text \<open>
  A session: a draft of 51 characters is generated, the timer delivers a batch of one
  suggestion (id \<open>4500-0\<close>), the user selects it and then types.
\<close>

definition session :: "Event list" where
  "session =
     [GenerateDraft (answering longText []) ''Write about X'' [] Generic 1000 1000,
      TimerFired (answering [] [rawExample]) (clockAt 4500),
      CardClicked ''4500-0'',
      ContentChanged 7000 (longText @ ''!'')]"

text \<open>
  The form is submitted twice before the first draft arrives. The second submission is
  answered at once and \<open>session\<close> follows, then the selected suggestion is applied
  (two revisions). The draft of the first submission arrives after that and replaces the
  sequence by one revision; the user types in it, receives a new batch and selects its
  suggestion.
\<close>

definition lateDraft :: "Action list" where
  "lateDraft =
     Start (GenerateDraft (answering longText []) ''Write about Y'' [] Twitter 9500 9500) #
     map Whole session @
     [Whole (ApplyClicked (answering (longText @ ''!!'') []) 9000 9000),
      Resume 0,
      Whole (ContentChanged 12000 (longText @ ''?'')),
      Whole (TimerFired (answering [] [rawExample]) (clockAt 15500)),
      Whole (CardClicked ''15500-0'')]"

section \<open>Helper lemmas\<close>

lemma currentRevision_Some:
  "revisions s \<noteq> [] \<Longrightarrow> currentRevision s = Some (last (revisions s))"
  by (simp add: currentRevision_def last_conv_nth)

lemma currentRevision_None:
  "revisions s = [] \<Longrightarrow> currentRevision s = None"
  by (simp add: currentRevision_def)

lemma handleUndo_unfold:
  assumes "revisions s \<noteq> []" "historyPast s \<noteq> []"
  shows "handleUndo s =
     s\<lparr> historyFuture := content (last (revisions s)) # historyFuture s,
        historyPast := butlast (historyPast s),
        revisions := replaceLast (revisions s)
                       ((last (revisions s))\<lparr> content := last (historyPast s) \<rparr>) \<rparr>"
  using assms by (simp add: handleUndo_def currentRevision_Some last_conv_nth Let_def)

lemma handleContentChange_unfold:
  assumes "revisions s \<noteq> []"
  shows "handleContentChange now c s =
     (if now - lastSaveTimeRef s > 1000
      then s\<lparr> historyPast := historyPast s @ [content (last (revisions s))],
               historyFuture := [],
               lastSaveTimeRef := now,
               revisions := replaceLast (revisions s) ((last (revisions s))\<lparr> content := c \<rparr>) \<rparr>
      else s\<lparr> revisions := replaceLast (revisions s) ((last (revisions s))\<lparr> content := c \<rparr>) \<rparr>)"
  using assms by (simp add: handleContentChange_def currentRevision_Some Let_def)

lemma handleApplySuggestions_unfold:
  assumes "revisions s \<noteq> []" "selectedSuggestions s \<noteq> {}"
  shows "handleApplySuggestions g now date s =
     handleApplySuggestions_resume (platform (last (revisions s)))
       (mergeText g (content (last (revisions s)))
          (filter (\<lambda>x. id_sug x \<in> selectedSuggestions s) (suggestions s))
          (platform (last (revisions s))))
       now date
       (s\<lparr> isGeneratingDraft := True,
           loadingMessage := ''Weaving in your selected changes...'',
           error := None \<rparr>)"
  using assms
  by (simp add: handleApplySuggestions_def handleApplySuggestions_start_def
      currentRevision_Some applySuggestions_def split: sum.splits)

lemma length_revisions_handleContentChange:
  "length (revisions (handleContentChange now c s)) = length (revisions s)"
  by (cases "revisions s = []")
     (simp_all add: handleContentChange_def currentRevision_Some currentRevision_None
        replaceLast_def Let_def)

lemma length_revisions_handleUndo:
  "length (revisions (handleUndo s)) = length (revisions s)"
  by (cases "revisions s = []")
     (simp_all add: handleUndo_def currentRevision_Some currentRevision_None
        replaceLast_def Let_def)

lemma length_revisions_handleRedo:
  "length (revisions (handleRedo s)) = length (revisions s)"
  by (cases "revisions s = []")
     (simp_all add: handleRedo_def currentRevision_Some currentRevision_None
        replaceLast_def split: list.splits)

lemma prevRef_handleContentChange:
  "prevRevisionsLengthRef (handleContentChange now c s) = prevRevisionsLengthRef s"
  by (simp add: handleContentChange_def Let_def split: option.splits)

lemma prevRef_handleUndo:
  "prevRevisionsLengthRef (handleUndo s) = prevRevisionsLengthRef s"
  by (simp add: handleUndo_def Let_def split: option.splits)

lemma prevRef_handleRedo:
  "prevRevisionsLengthRef (handleRedo s) = prevRevisionsLengthRef s"
  by (simp add: handleRedo_def split: option.splits list.splits)

lemma fetchSuggestions_frame:
  "revisions (fetchSuggestions g clock r s) = revisions s \<and>
   selectedSuggestions (fetchSuggestions g clock r s) = selectedSuggestions s \<and>
   historyPast (fetchSuggestions g clock r s) = historyPast s \<and>
   historyFuture (fetchSuggestions g clock r s) = historyFuture s \<and>
   prevRevisionsLengthRef (fetchSuggestions g clock r s) = prevRevisionsLengthRef s"
  by (simp add: fetchSuggestions_def fetchSuggestions_start_def fetchSuggestions_resume_def
      split: option.splits sum.splits)

lemma suggestionTimer_frame:
  "revisions (suggestionTimer g clock s) = revisions s \<and>
   prevRevisionsLengthRef (suggestionTimer g clock s) = prevRevisionsLengthRef s"
  by (simp add: suggestionTimer_def fetchSuggestions_frame split: option.splits)

text \<open>The handler of \<open>dispatch\<close> is the part up to the \<open>await\<close> followed by the rest.\<close>

lemma dispatch_upToAwait:
  "dispatch e s =
     (case upToAwait e s of
        (s', None) \<Rightarrow> rerender s s'
      | (s', Some k) \<Rightarrow> rerender s (k s'))"
proof (cases e)
  case (GenerateDraft g prompt files pf now date)
  then show ?thesis
    by (simp add: handleGenerateDraft_def rerender_def)
next
  case (TimerFired g clock)
  then show ?thesis
    by (simp add: suggestionTimer_def fetchSuggestions_def rerender_def
        split: option.splits Step.splits prod.splits)
next
  case (ApplyClicked g now date)
  then show ?thesis
    by (simp add: handleApplySuggestions_def rerender_def split: Step.splits prod.splits)
next
  case (CardClicked i)
  then show ?thesis
    by (simp add: rerender_def)
next
  case (ContentChanged now c)
  then show ?thesis
    by (simp add: rerender_def)
next
  case UndoPressed
  then show ?thesis
    by (simp add: rerender_def)
next
  case RedoPressed
  then show ?thesis
    by (simp add: rerender_def)
qed

lemma foldl_act_Whole:
  "foldl (\<lambda>w a. act a w) w (map Whole events) =
     w\<lparr> app := foldl (\<lambda>s e. dispatch e s) (app w) events \<rparr>"
  by (induction events arbitrary: w) simp_all

lemma play_Whole: "play (map Whole events) = run events"
  by (simp add: play_def run_def foldl_act_Whole)

section \<open>Properties of the handlers\<close>

text \<open>
  Claim C4. In every state with a current revision and a non-empty past stack, undo
  followed at once by redo gives the current revision the content it had before the
  undo. The undo itself sets the content to the last snapshot of the past stack, the
  redo restores the whole state, and the length effect does not run in between.
\<close>

theorem undo_then_redo_restores_content:
  assumes "revisions s \<noteq> []" and "historyPast s \<noteq> []"
  shows "map_option content (currentRevision (handleRedo (handleUndo s))) =
           map_option content (currentRevision s) \<and>
         map_option content (currentRevision (handleUndo s)) = Some (last (historyPast s)) \<and>
         handleRedo (handleUndo s) = s \<and>
         rerender s (handleUndo s) = handleUndo s"
proof -
  let ?cur = "last (revisions s)"
  have u_eq: "handleUndo s =
     s\<lparr> historyFuture := content ?cur # historyFuture s,
        historyPast := butlast (historyPast s),
        revisions := replaceLast (revisions s) (?cur\<lparr> content := last (historyPast s) \<rparr>) \<rparr>"
    by (rule handleUndo_unfold [OF assms])
  have cur: "currentRevision (handleUndo s) = Some (?cur\<lparr> content := last (historyPast s) \<rparr>)"
    by (simp add: u_eq currentRevision_def replaceLast_def nth_append)
  have fut: "historyFuture (handleUndo s) = content ?cur # historyFuture s"
    by (simp add: u_eq)
  have roundtrip: "handleRedo (handleUndo s) = s"
    using assms by (simp add: handleRedo_def cur fut) (simp add: u_eq replaceLast_def)
  have same: "rerender s (handleUndo s) = handleUndo s"
    by (simp add: rerender_def length_revisions_handleUndo)
  show ?thesis
    by (simp add: roundtrip cur same)
qed

theorem undo_then_redo_restores_content_witness:
  "revisions editing \<noteq> [] \<and> historyPast editing \<noteq> [] \<and>
   map_option content (currentRevision (handleUndo editing)) = Some ''Hello'' \<and>
   map_option content (currentRevision (handleRedo (handleUndo editing))) = Some ''Hello world'' \<and>
   handleRedo (handleUndo editing) = editing"
  using undo_then_redo_restores_content [of editing]
  by (simp add: editing_def initialState_def exampleRevision_def currentRevision_def)

text \<open>
  Claim C3. In every state with a current revision and a non-empty selection,
  \<open>handleApplySuggestions\<close> is all or nothing. When the merge call throws, the
  revisions, the suggestion batch, the selection and both history stacks are what they
  were and the error message is set; when it answers, one revision with the answer is
  appended, the batch and the selection are emptied and no error is set.
\<close>

theorem applySelected_all_or_nothing:
  assumes "revisions s \<noteq> []" and "selectedSuggestions s \<noteq> {}"
  shows "(let cur = last (revisions s);
              s' = handleApplySuggestions g now date s
          in case mergeText g (content cur)
                    (filter (\<lambda>x. id_sug x \<in> selectedSuggestions s) (suggestions s))
                    (platform cur) of
               Inl e \<Rightarrow>
                 revisions s' = revisions s \<and> suggestions s' = suggestions s \<and>
                 selectedSuggestions s' = selectedSuggestions s \<and>
                 historyPast s' = historyPast s \<and> historyFuture s' = historyFuture s \<and>
                 error s' = Some ''Failed to apply suggestions. Please try again.''
             | Inr newContent \<Rightarrow>
                 revisions s' =
                   revisions s @
                   [\<lparr> id_rev = toString now, content = newContent, timestamp = date,
                       platform = platform cur \<rparr>] \<and>
                 suggestions s' = [] \<and> selectedSuggestions s' = {} \<and> error s' = None)"
  by (simp add: handleApplySuggestions_unfold [OF assms] handleApplySuggestions_resume_def
      Let_def split: sum.splits)

theorem applySelected_all_or_nothing_witness:
  "revisions editing \<noteq> [] \<and> selectedSuggestions editing \<noteq> {} \<and>
   revisions (handleApplySuggestions failing 9000 9001 editing) = revisions editing \<and>
   suggestions (handleApplySuggestions failing 9000 9001 editing) = suggestions editing \<and>
   selectedSuggestions (handleApplySuggestions failing 9000 9001 editing) = {''s1''} \<and>
   error (handleApplySuggestions failing 9000 9001 editing) =
     Some ''Failed to apply suggestions. Please try again.'' \<and>
   map content (revisions (handleApplySuggestions (answering ''Hello brave world'' []) 9000 9001 editing)) =
     [''Hello world'', ''Hello brave world''] \<and>
   suggestions (handleApplySuggestions (answering ''Hello brave world'' []) 9000 9001 editing) = [] \<and>
   selectedSuggestions (handleApplySuggestions (answering ''Hello brave world'' []) 9000 9001 editing) = {}"
  using applySelected_all_or_nothing [of editing failing 9000 9001]
    applySelected_all_or_nothing [of editing "answering ''Hello brave world'' []" 9000 9001]
  by (simp add: editing_def initialState_def exampleRevision_def failing_def answering_def
      Let_def)



text \<open>
  Claim C9. For a revision whose content is shorter than 50, \<open>fetchSuggestions\<close>
  returns before it awaits the generator (no call is made) and the state, hence the
  suggestion batch, is unchanged; the same holds for the timer callback when that
  revision is the current one.
\<close>

theorem requestSuggestions_below_threshold:
  assumes "length (content r) < 50"
  shows "fetchSuggestions_start (Some r) s = Return s \<and>
         fetchSuggestions g clock (Some r) s = s \<and>
         suggestions (fetchSuggestions g clock (Some r) s) = suggestions s \<and>
         (currentRevision s = Some r \<longrightarrow> suggestionTimer g clock s = s)"
  using assms
  by (simp add: fetchSuggestions_start_def fetchSuggestions_def suggestionTimer_def)

theorem requestSuggestions_below_threshold_witness:
  "length (content (exampleRevision\<lparr> content := shortText \<rparr>)) = 40 \<and>
   currentRevision (editing\<lparr> revisions := [exampleRevision\<lparr> content := shortText \<rparr>] \<rparr>) =
     Some (exampleRevision\<lparr> content := shortText \<rparr>) \<and>
   fetchSuggestions_start (Some (exampleRevision\<lparr> content := shortText \<rparr>))
     (editing\<lparr> revisions := [exampleRevision\<lparr> content := shortText \<rparr>] \<rparr>) =
     Return (editing\<lparr> revisions := [exampleRevision\<lparr> content := shortText \<rparr>] \<rparr>) \<and>
   suggestions (suggestionTimer (answering [] [rawExample]) (clockAt 5)
     (editing\<lparr> revisions := [exampleRevision\<lparr> content := shortText \<rparr>] \<rparr>)) = [exampleSuggestion]"
  using requestSuggestions_below_threshold
    [of "exampleRevision\<lparr> content := shortText \<rparr>"
        "editing\<lparr> revisions := [exampleRevision\<lparr> content := shortText \<rparr>] \<rparr>"
        "answering [] [rawExample]" "clockAt 5"]
  by (simp add: shortText_def currentRevision_def editing_def initialState_def)

lemma fetchSuggestions_at_threshold:
  "50 \<le> length (content r) \<Longrightarrow>
   fetchSuggestions_start (Some r) s =
     Await (content r, platform r) (s\<lparr> isFetchingSuggestions := True \<rparr>)"
  by (simp add: fetchSuggestions_start_def)

text \<open>
  Claim C8, as stated, fails: when the generator answers with empty content,
  \<open>handleGenerateDraft\<close> on the initial state installs one revision whose content is
  empty and reports no error.
\<close>

theorem startDocument_installs_empty_content:
  "map content (revisions (handleGenerateDraft (answering [] []) ''Write about X'' [] Generic 1000 1001
      initialState)) = [[]] \<and>
   error (handleGenerateDraft (answering [] []) ''Write about X'' [] Generic 1000 1001 initialState) =
     None"
  by (simp add: handleGenerateDraft_def handleGenerateDraft_start_def
      handleGenerateDraft_resume_def generateInitialDraft_def answering_def initialState_def)

text \<open>
  Claim C8, amended. \<open>handleGenerateDraft\<close> reports its error exactly when the generator
  call throws, and then the revisions, the suggestion batch, the selection and the
  history stacks are untouched (an empty sequence stays empty). When the call answers,
  with empty content or not, the sequence becomes the single revision that carries the
  answer, the batch and the selection are emptied and no error is set.
\<close>

theorem startDocument_outcomes:
  "(let s' = handleGenerateDraft g prompt files pf now date s
    in case draftText g prompt files pf of
         Inl e \<Rightarrow>
           revisions s' = revisions s \<and> suggestions s' = suggestions s \<and>
           selectedSuggestions s' = selectedSuggestions s \<and>
           historyPast s' = historyPast s \<and> historyFuture s' = historyFuture s \<and>
           error s' = Some ''Failed to generate draft. Please check your API key and try again.''
       | Inr c \<Rightarrow>
           revisions s' =
             [\<lparr> id_rev = toString now, content = c, timestamp = date, platform = pf \<rparr>] \<and>
           suggestions s' = [] \<and> selectedSuggestions s' = {} \<and> error s' = None)"
  by (simp add: handleGenerateDraft_def handleGenerateDraft_start_def
      handleGenerateDraft_resume_def generateInitialDraft_def Let_def split: sum.splits)

text \<open>
  Claim C7, as stated, fails: toggling an id that no suggestion of the batch has adds it
  to the selection, so the state changes.
\<close>

theorem toggleSelection_outside_batch_counterexample:
  "''stale'' \<notin> set (map id_sug (suggestions editing)) \<and>
   selectedSuggestions editing = {''s1''} \<and>
   selectedSuggestions (handleToggleSuggestion ''stale'' editing) = {''s1'', ''stale''} \<and>
   handleToggleSuggestion ''stale'' editing \<noteq> editing"
proof -
  have sel: "selectedSuggestions (handleToggleSuggestion ''stale'' editing) = {''s1'', ''stale''}"
    by (auto simp add: handleToggleSuggestion_def editing_def initialState_def)
  have "selectedSuggestions (handleToggleSuggestion ''stale'' editing) \<noteq> selectedSuggestions editing"
    unfolding sel by (auto simp add: editing_def initialState_def)
  then have "handleToggleSuggestion ''stale'' editing \<noteq> editing"
    by auto
  then show ?thesis
    using sel by (simp add: editing_def initialState_def exampleSuggestion_def)
qed

text \<open>
  Claim C7, amended. \<open>handleToggleSuggestion\<close> flips the membership of the given id in
  the selection whether or not the id belongs to the current batch; the membership of
  every other id and every other component of the state are unchanged, and there is no
  error path.
\<close>

theorem toggleSelection_flips_any_id:
  "(suggestionId \<in> selectedSuggestions (handleToggleSuggestion suggestionId s)) =
     (suggestionId \<notin> selectedSuggestions s) \<and>
   selectedSuggestions (handleToggleSuggestion suggestionId s) - {suggestionId} =
     selectedSuggestions s - {suggestionId} \<and>
   handleToggleSuggestion suggestionId s =
     s\<lparr> selectedSuggestions := selectedSuggestions (handleToggleSuggestion suggestionId s) \<rparr>"
  by (auto simp add: handleToggleSuggestion_def)

text \<open>
  Claim C6, as stated, fails: two edits, 2000 ms after the last snapshot and exactly
  1000 ms after each other, leave one snapshot on a past stack that was empty.
\<close>

theorem recordEdit_exactly_1000_counterexample:
  "historyPast fresh = [] \<and> lastSaveTimeRef fresh = 0 \<and>
   gaps (lastSaveTimeRef fresh) [2000, 3000] = [2000, 1000] \<and>
   historyPast (recordEdits [(2000, ''Hello world!''), (3000, ''Hello world!!'')] fresh) =
     [''Hello world'']"
  by (simp add: fresh_def initialState_def exampleRevision_def handleContentChange_def
      currentRevision_def replaceLast_def Let_def)

lemma revisions_handleContentChange_nonempty:
  "revisions s \<noteq> [] \<Longrightarrow> revisions (handleContentChange now c s) \<noteq> []"
  using length_revisions_handleContentChange [of now c s] by (metis length_0_conv)

lemma recordEdits_spaced:
  "revisions s \<noteq> [] \<Longrightarrow>
   \<forall>d \<in> set (gaps (lastSaveTimeRef s) (map fst edits)). d > 1000 \<Longrightarrow>
   length (historyPast (recordEdits edits s)) = length (historyPast s) + length edits"
proof (induction edits arbitrary: s)
  case Nil
  then show ?case by simp
next
  case (Cons e edits)
  obtain now c where e: "e = (now, c)" by (cases e)
  let ?s1 = "handleContentChange now c s"
  from Cons.prems e have gap: "now - lastSaveTimeRef s > 1000" by simp
  have s1: "length (historyPast ?s1) = Suc (length (historyPast s))" "lastSaveTimeRef ?s1 = now"
    using gap by (simp_all add: handleContentChange_unfold [OF Cons.prems(1)])
  have ne: "revisions ?s1 \<noteq> []"
    by (rule revisions_handleContentChange_nonempty [OF Cons.prems(1)])
  have rest: "\<forall>d \<in> set (gaps (lastSaveTimeRef ?s1) (map fst edits)). d > 1000"
    using Cons.prems(2) e s1(2) by simp
  show ?case
    using Cons.IH [OF ne rest] s1(1) e by simp
qed

text \<open>
  Claim C6, amended. With a current revision: if every edit of a sequence comes strictly
  more than 1000 ms after the one before it (the first after the last snapshot time),
  the past stack grows by the number of edits. An edit at most 1000 ms (exactly 1000
  included) after the last snapshot pushes nothing and leaves the snapshot time, while
  the live content is updated; an edit more than 1000 ms after it pushes the content it
  replaces.
\<close>

theorem recordEdit_throttle:
  assumes "revisions s \<noteq> []"
  shows "((\<forall>d \<in> set (gaps (lastSaveTimeRef s) (map fst edits)). d > 1000) \<longrightarrow>
            length (historyPast (recordEdits edits s)) = length (historyPast s) + length edits) \<and>
         (now - lastSaveTimeRef s \<le> 1000 \<longrightarrow>
            historyPast (handleContentChange now c s) = historyPast s \<and>
            lastSaveTimeRef (handleContentChange now c s) = lastSaveTimeRef s \<and>
            map_option content (currentRevision (handleContentChange now c s)) = Some c) \<and>
         (now - lastSaveTimeRef s > 1000 \<longrightarrow>
            historyPast (handleContentChange now c s) =
              historyPast s @ [content (last (revisions s))] \<and>
            lastSaveTimeRef (handleContentChange now c s) = now \<and>
            map_option content (currentRevision (handleContentChange now c s)) = Some c)"
  using assms recordEdits_spaced [OF assms, of edits]
  by (simp add: handleContentChange_unfold [OF assms] currentRevision_def replaceLast_def
      nth_append)

theorem recordEdit_throttle_witness:
  "revisions fresh \<noteq> [] \<and>
   gaps (lastSaveTimeRef fresh) (map fst [(2000, ''a''), (3001, ''ab''), (4002, ''abc'')]) =
     [2000, 1001, 1001] \<and>
   length (historyPast (recordEdits [(2000, ''a''), (3001, ''ab''), (4002, ''abc'')] fresh)) = 3 \<and>
   5900 - lastSaveTimeRef editing \<le> 1000 \<and>
   historyPast (handleContentChange 5900 ''Hello there'' editing) = [''Hello''] \<and>
   map_option content (currentRevision (handleContentChange 5900 ''Hello there'' editing)) =
     Some ''Hello there'' \<and>
   6001 - lastSaveTimeRef editing > 1000 \<and>
   historyPast (handleContentChange 6001 ''Hello there'' editing) = [''Hello'', ''Hello world'']"
  using recordEdit_throttle [of fresh "[(2000, ''a''), (3001, ''ab''), (4002, ''abc'')]" 0 "''x''"]
    recordEdit_throttle [of editing "[]" 5900 "''Hello there''"]
    recordEdit_throttle [of editing "[]" 6001 "''Hello there''"]
  by (simp add: fresh_def editing_def initialState_def exampleRevision_def)

lemmas eval_defs = run_def session_def rerender_def lengthEffect_def handleGenerateDraft_def
  handleGenerateDraft_start_def handleGenerateDraft_resume_def generateInitialDraft_def
  answering_def initialState_def handleContentChange_def currentRevision_def replaceLast_def
  handleUndo_def handleRedo_def Let_def suggestionTimer_def fetchSuggestions_def
  fetchSuggestions_start_def fetchSuggestions_resume_def generateSuggestions_def withId_def
  toString_def natToString.simps longText_def rawExample_def handleToggleSuggestion_def
  clockAt_def

text \<open>
  Claim C1 at a concrete session. After \<open>session\<close> the batch is the suggestion \<open>4500-0\<close>
  and it is selected. When the timer then delivers a new batch (the suggestion \<open>10500-0\<close>),
  \<open>fetchSuggestions\<close> replaces the batch and the selection is still \<open>{4500-0}\<close>: it is
  not cleared, unlike in \<open>handleGenerateDraft\<close> and \<open>handleApplySuggestions\<close>.
\<close>

theorem fetch_replaces_batch_keeps_selection:
  "map id_sug (suggestions (run session)) = [''4500-0''] \<and>
   selectedSuggestions (run session) = {''4500-0''} \<and>
   map id_sug (suggestions (run (session @ [TimerFired (answering [] [rawExample]) (clockAt 10500)]))) =
     [''10500-0''] \<and>
   selectedSuggestions (run (session @ [TimerFired (answering [] [rawExample]) (clockAt 10500)])) =
     {''4500-0''}"
  by (simp add: eval_defs)

text \<open>
  Claim C2 at a concrete session. \<open>session\<close> ends with an edit at 7000 that takes a
  snapshot. After an undo the future stack holds one entry; an edit at 7500, inside the
  throttle window, updates the content and leaves that entry on the future stack.
\<close>

theorem throttled_edit_keeps_future:
  "historyFuture (run (session @ [UndoPressed])) = [longText @ ''!''] \<and>
   lastSaveTimeRef (run (session @ [UndoPressed])) = 7000 \<and>
   historyFuture (run (session @ [UndoPressed, ContentChanged 7500 (longText @ ''?'')])) =
     [longText @ ''!''] \<and>
   map content (revisions (run (session @ [UndoPressed, ContentChanged 7500 (longText @ ''?'')]))) =
     [longText @ ''?'']"
  by (simp add: eval_defs)

lemma lengthEffect_resets:
  "prevRevisionsLengthRef s < length (revisions s) \<Longrightarrow>
   historyPast (lengthEffect s) = [] \<and> historyFuture (lengthEffect s) = []"
  by (simp add: lengthEffect_def)

lemma lengthEffect_idle:
  "length (revisions s) \<le> prevRevisionsLengthRef s \<Longrightarrow> lengthEffect s = s"
  by (simp add: lengthEffect_def)

text \<open>
  A content change, an undo or a redo keeps the length of the sequence, so the effect
  does not run after it.
\<close>

lemma rerender_in_place:
  "rerender s (handleContentChange now c s) = handleContentChange now c s \<and>
   rerender s (handleUndo s) = handleUndo s \<and>
   rerender s (handleRedo s) = handleRedo s"
  by (simp add: rerender_def length_revisions_handleContentChange length_revisions_handleUndo
      length_revisions_handleRedo)

lemmas play_defs = play_def lateDraft_def handleApplySuggestions_def
  handleApplySuggestions_start_def handleApplySuggestions_resume_def applySuggestions_def

text \<open>
  Claim C5 at a concrete schedule. After \<open>lateDraft\<close> the sequence has one revision,
  the past stack holds a snapshot of a manual edit and \<open>prevRevisionsLengthRef\<close> is
  still 2, the length reached before the late draft replaced the sequence. Applying the
  selected suggestion then appends a revision (length 1 to 2), and the past stack still
  holds the snapshot: the effect compares the new length with the largest length seen,
  not with the previous one, and does not reset the history.
\<close>

theorem append_after_late_draft_keeps_history:
  "length (revisions (play lateDraft)) = 1 \<and>
   prevRevisionsLengthRef (play lateDraft) = 2 \<and>
   historyPast (play lateDraft) = [longText] \<and>
   selectedSuggestions (play lateDraft) = {''15500-0''} \<and>
   length (revisions
     (play (lateDraft @ [Whole (ApplyClicked (answering ''Merged'' []) 17000 17000)]))) = 2 \<and>
   historyPast
     (play (lateDraft @ [Whole (ApplyClicked (answering ''Merged'' []) 17000 17000)])) =
     [longText]"
  by (simp add: play_defs eval_defs)

end
